theory Spec2Isabelle
  imports Main
begin

section \<open>JavaScript values\<close>

text \<open>
  Decoded token payloads, request fields and the JSON bodies of the ServiceTrade API are
  dynamically typed. They are modelled by one datatype of values; \<open>JUndefined\<close> is the
  value of a missing property or an omitted argument. Numbers only matter through their
  truthiness and equality here, so they are integers.
\<close>

datatype jsval =
    JUndefined
  | JNull
  | JBool bool
  | JNum int
  | JStr string
  | JArr "jsval list"
  | JObj "(string \<times> jsval) list"

text \<open>The conversion to boolean done by \<^verbatim>\<open>if (x)\<close>, \<^verbatim>\<open>!x\<close>, \<^verbatim>\<open>&&\<close> and \<^verbatim>\<open>||\<close>.\<close>

fun truthy :: "jsval \<Rightarrow> bool" where
  "truthy JUndefined = False"
| "truthy JNull = False"
| "truthy (JBool b) = b"
| "truthy (JNum n) = (n \<noteq> 0)"
| "truthy (JStr s) = (s \<noteq> [])"
| "truthy (JArr xs) = True"
| "truthy (JObj kvs) = True"

text \<open>\<^verbatim>\<open>a || b\<close> on values: the first operand when it is truthy, the second otherwise.\<close>

definition js_or :: "jsval \<Rightarrow> jsval \<Rightarrow> jsval" where
  "js_or a b = (if truthy a then a else b)"

text \<open>
  Reading a property \<^verbatim>\<open>v.k\<close>. On \<^verbatim>\<open>null\<close> and \<^verbatim>\<open>undefined\<close> the read throws a
  TypeError, which is \<open>None\<close> here. The property names read by the program
  (\<^verbatim>\<open>type\<close>, \<^verbatim>\<open>userId\<close>, \<^verbatim>\<open>data\<close>, ...) are not properties of strings, numbers,
  booleans or arrays, so there the read gives \<^verbatim>\<open>undefined\<close>.
\<close>

definition nullish :: "jsval \<Rightarrow> bool" where
  "nullish v = (v = JUndefined \<or> v = JNull)"

fun js_prop :: "jsval \<Rightarrow> string \<Rightarrow> jsval" where
  "js_prop (JObj kvs) k = (case map_of kvs k of None \<Rightarrow> JUndefined | Some v \<Rightarrow> v)"
| "js_prop v k = JUndefined"

definition get_prop :: "jsval \<Rightarrow> string \<Rightarrow> jsval option" where
  "get_prop v k = (if nullish v then None else Some (js_prop v k))"


section \<open>The JavaScript \<open>Map\<close>, in insertion order\<close>

text \<open>
  A \<^verbatim>\<open>Map\<close> iterates its keys in the order of their first insertion; \<^verbatim>\<open>set\<close> on a
  key that is present replaces the value and keeps the key's position. It is an
  association list, oldest key first. Keys are compared by value: the identifiers used as
  keys are primitive values.
\<close>

type_synonym ('k, 'v) js_map = "('k \<times> 'v) list"

definition Map_get :: "('k, 'v) js_map \<Rightarrow> 'k \<Rightarrow> 'v option" where
  "Map_get m k = map_of m k"

primrec Map_set :: "('k, 'v) js_map \<Rightarrow> 'k \<Rightarrow> 'v \<Rightarrow> ('k, 'v) js_map" where
  "Map_set [] k v = [(k, v)]"
| "Map_set (p # ps) k v = (if fst p = k then (k, v) # ps else p # Map_set ps k v)"

definition Map_delete :: "('k, 'v) js_map \<Rightarrow> 'k \<Rightarrow> ('k, 'v) js_map" where
  "Map_delete m k = filter (\<lambda>p. fst p \<noteq> k) m"

definition Map_size :: "('k, 'v) js_map \<Rightarrow> nat" where
  "Map_size m = length m"

text \<open>\<^verbatim>\<open>m.keys().next().value\<close>: the oldest key, \<^verbatim>\<open>undefined\<close> for an empty map.\<close>

definition Map_first_key :: "(jsval, 'v) js_map \<Rightarrow> jsval" where
  "Map_first_key m = (case m of [] \<Rightarrow> JUndefined | p # ps \<Rightarrow> fst p)"

section \<open>Users and the identity cache (auth.middleware)\<close>

text \<open>
  A row of the \<^verbatim>\<open>users\<close> table as the middleware reads it. \<^verbatim>\<open>supabase_id\<close> is
  \<open>JNull\<close> while the account is not linked.
\<close>

record user =
  id_u :: jsval
  email_u :: jsval
  company_id :: jsval
  role_u :: jsval
  supabase_id :: jsval
  password_hash :: jsval

record cache_entry =
  user :: user
  timestamp :: int

type_synonym user_cache = "(jsval, cache_entry) js_map"

definition CACHE_TTL_MS :: int where
  "CACHE_TTL_MS = 5 * 60 * 1000"

definition CACHE_MAX_SIZE :: nat where
  "CACHE_MAX_SIZE = 500"

text \<open>
  \<^verbatim>\<open>getCachedUser\<close>; \<open>now\<close> is the value of \<^verbatim>\<open>Date.now()\<close> (milliseconds). The
  expired entry is deleted, so the cache is returned as well.
\<close>

definition getCachedUser :: "int \<Rightarrow> user_cache \<Rightarrow> jsval \<Rightarrow> user option \<times> user_cache" where
  "getCachedUser now c supabaseUserId =
     (case Map_get c supabaseUserId of
        None \<Rightarrow> (None, c)
      | Some entry \<Rightarrow>
          if now - timestamp entry > CACHE_TTL_MS
          then (None, Map_delete c supabaseUserId)
          else (Some (user entry), c))"

definition setCachedUser :: "int \<Rightarrow> user_cache \<Rightarrow> jsval \<Rightarrow> user \<Rightarrow> user_cache" where
  "setCachedUser now c supabaseUserId u =
     (let c1 = (if Map_size c \<ge> CACHE_MAX_SIZE
                then Map_delete c (Map_first_key c)
                else c)
      in Map_set c1 supabaseUserId \<lparr>user = u, timestamp = now\<rparr>)"

definition clearUserCache :: "user_cache \<Rightarrow> jsval \<Rightarrow> user_cache" where
  "clearUserCache c supabaseUserId =
     (if truthy supabaseUserId then Map_delete c supabaseUserId else [])"

section \<open>The user store\<close>

text \<open>
  The queries of \<^verbatim>\<open>auth.service\<close> are the interface to the database. The middleware
  only calls them, so they are parameters of the model: \<open>'db\<close> is the state of the
  store, a read returns a row or nothing, a write returns the new state. Every call is
  also appended to a log, so that "no store access" can be stated.
\<close>

record 'db auth_service =
  getUserBySupabaseId :: "'db \<Rightarrow> jsval \<Rightarrow> user option"
  getUserByEmail :: "'db \<Rightarrow> jsval \<Rightarrow> user option"
  updateSupabaseId :: "'db \<Rightarrow> jsval \<Rightarrow> jsval \<Rightarrow> 'db"
  updatePasswordByEmail :: "'db \<Rightarrow> jsval \<Rightarrow> jsval \<Rightarrow> 'db"

datatype store_call =
    GetUserBySupabaseId jsval
  | GetUserByEmail jsval
  | UpdateSupabaseId jsval jsval
  | UpdatePasswordByEmail jsval jsval

record 'db auth_state =
  userCache :: user_cache
  db :: 'db
  store_calls :: "store_call list"

definition call_getUserBySupabaseId ::
  "'db auth_service \<Rightarrow> 'db auth_state \<Rightarrow> jsval \<Rightarrow> user option \<times> 'db auth_state" where
  "call_getUserBySupabaseId svc st sid =
     (getUserBySupabaseId svc (db st) sid,
      st\<lparr>store_calls := store_calls st @ [GetUserBySupabaseId sid]\<rparr>)"

definition call_getUserByEmail ::
  "'db auth_service \<Rightarrow> 'db auth_state \<Rightarrow> jsval \<Rightarrow> user option \<times> 'db auth_state" where
  "call_getUserByEmail svc st e =
     (getUserByEmail svc (db st) e,
      st\<lparr>store_calls := store_calls st @ [GetUserByEmail e]\<rparr>)"

definition call_updateSupabaseId ::
  "'db auth_service \<Rightarrow> 'db auth_state \<Rightarrow> jsval \<Rightarrow> jsval \<Rightarrow> 'db auth_state" where
  "call_updateSupabaseId svc st uid sid =
     st\<lparr>db := updateSupabaseId svc (db st) uid sid,
        store_calls := store_calls st @ [UpdateSupabaseId uid sid]\<rparr>"

definition call_updatePasswordByEmail ::
  "'db auth_service \<Rightarrow> 'db auth_state \<Rightarrow> jsval \<Rightarrow> jsval \<Rightarrow> 'db auth_state" where
  "call_updatePasswordByEmail svc st e pw =
     st\<lparr>db := updatePasswordByEmail svc (db st) e pw,
        store_calls := store_calls st @ [UpdatePasswordByEmail e pw]\<rparr>"

section \<open>The identity resolver\<close>

text \<open>
  \<^verbatim>\<open>resolveSupabaseUser\<close>. \<^verbatim>\<open>Date.now()\<close> is read twice, in \<^verbatim>\<open>getCachedUser\<close>
  (\<open>t_get\<close>) and, after the store has answered, in \<^verbatim>\<open>setCachedUser\<close> (\<open>t_set\<close>).
\<close>

definition resolveSupabaseUser ::
  "'db auth_service \<Rightarrow> int \<Rightarrow> int \<Rightarrow> 'db auth_state \<Rightarrow> jsval \<Rightarrow> jsval
     \<Rightarrow> user option \<times> 'db auth_state" where
  "resolveSupabaseUser svc t_get t_set st supabaseUserId email =
     (case getCachedUser t_get (userCache st) supabaseUserId of
        (Some cached, c1) \<Rightarrow> (Some cached, st\<lparr>userCache := c1\<rparr>)
      | (None, c1) \<Rightarrow>
          let (usr, st1) = call_getUserBySupabaseId svc (st\<lparr>userCache := c1\<rparr>) supabaseUserId;
              (usr, st2) =
                (if usr = None \<and> truthy email
                 then (case call_getUserByEmail svc st1 email of
                         (Some u, s) \<Rightarrow>
                           if \<not> truthy (supabase_id u)
                           then (Some (u\<lparr>supabase_id := supabaseUserId\<rparr>),
                                 call_updateSupabaseId svc s (id_u u) supabaseUserId)
                           else (Some u, s)
                       | (None, s) \<Rightarrow> (None, s))
                 else (usr, st1))
          in (case usr of
                Some u \<Rightarrow>
                  (Some u, st2\<lparr>userCache := setCachedUser t_set (userCache st2) supabaseUserId u\<rparr>)
              | None \<Rightarrow> (None, st2)))"

section \<open>Token verification\<close>

text \<open>
  \<^verbatim>\<open>jwt.verify(token, secret)\<close> belongs to the jsonwebtoken library: it is the
  parameter \<open>jv\<close>, which gives the decoded payload, or \<open>None\<close> when the library throws
  (bad signature, expired or malformed token).
\<close>

type_synonym jwt_verify = "string \<Rightarrow> string \<Rightarrow> jsval option"

record config =
  jwt_secret :: string
  supabase_jwtSecret :: "string option"

text \<open>
  \<^verbatim>\<open>verifyCustomToken\<close>. The body is inside \<^verbatim>\<open>try\<close>: a throw of the library and a
  TypeError of the property reads both end in \<^verbatim>\<open>null\<close>.
\<close>

definition verifyCustomToken :: "jwt_verify \<Rightarrow> config \<Rightarrow> string \<Rightarrow> jsval option" where
  "verifyCustomToken jv cfg token =
     (case jv token (jwt_secret cfg) of
        None \<Rightarrow> None
      | Some decoded \<Rightarrow>
          (case get_prop decoded ''type'' of
             None \<Rightarrow> None
           | Some ty \<Rightarrow>
               if ty = JStr ''access'' \<and> truthy (js_prop decoded ''userId'')
                  \<and> truthy (js_prop decoded ''companyId'')
               then Some decoded
               else None))"

definition verifySupabaseToken :: "jwt_verify \<Rightarrow> config \<Rightarrow> string \<Rightarrow> jsval option" where
  "verifySupabaseToken jv cfg token =
     (case supabase_jwtSecret cfg of
        None \<Rightarrow> None
      | Some secret \<Rightarrow>
          if secret = [] then None
          else (case jv token secret of
                  None \<Rightarrow> None
                | Some decoded \<Rightarrow>
                    (case get_prop decoded ''sub'' of
                       None \<Rightarrow> None
                     | Some sub \<Rightarrow> if truthy sub then Some decoded else None)))"

section \<open>The authentication middleware\<close>

record principal =
  userId :: jsval
  email :: jsval
  companyId :: jsval
  role :: jsval

text \<open>
  What a middleware does with the request: \<open>Next x\<close> calls \<^verbatim>\<open>next()\<close> (for the
  authentication middleware \<open>x\<close> is the value it has stored in \<^verbatim>\<open>req.user\<close>),
  \<open>Respond status error\<close> ends the request with that status and error message.
\<close>

datatype 'a outcome = Next 'a | Respond nat string

definition principal_of_claims :: "jsval \<Rightarrow> principal" where
  "principal_of_claims payload =
     \<lparr>userId = js_prop payload ''userId'', email = js_prop payload ''email'',
      companyId = js_prop payload ''companyId'', role = js_prop payload ''role''\<rparr>"

definition principal_of_user :: "user \<Rightarrow> principal" where
  "principal_of_user u =
     \<lparr>userId = id_u u, email = email_u u, companyId = company_id u, role = role_u u\<rparr>"

definition starts_with :: "string \<Rightarrow> string \<Rightarrow> bool" where
  "starts_with s p = (take (length p) s = p)"

text \<open>
  \<^verbatim>\<open>authenticate\<close>; \<open>authHeader\<close> is \<^verbatim>\<open>req.headers.authorization\<close>, \<open>None\<close> when
  the header is missing.
\<close>

definition authenticate ::
  "jwt_verify \<Rightarrow> config \<Rightarrow> 'db auth_service \<Rightarrow> int \<Rightarrow> int \<Rightarrow> 'db auth_state \<Rightarrow> string option
     \<Rightarrow> principal option outcome \<times> 'db auth_state" where
  "authenticate jv cfg svc t_get t_set st authHeader =
     (case authHeader of
        None \<Rightarrow> (Respond 401 ''No authorization token provided'', st)
      | Some h \<Rightarrow>
          if h = [] \<or> \<not> starts_with h ''Bearer ''
          then (Respond 401 ''No authorization token provided'', st)
          else
            let token = drop 7 h in
            (case verifyCustomToken jv cfg token of
               Some customPayload \<Rightarrow> (Next (Some (principal_of_claims customPayload)), st)
             | None \<Rightarrow>
                 (case verifySupabaseToken jv cfg token of
                    Some supabasePayload \<Rightarrow>
                      (case resolveSupabaseUser svc t_get t_set st
                              (js_prop supabasePayload ''sub'') (js_prop supabasePayload ''email'') of
                         (Some u, st') \<Rightarrow> (Next (Some (principal_of_user u)), st')
                       | (None, st') \<Rightarrow> (Respond 401 ''Invalid or expired token'', st'))
                  | None \<Rightarrow> (Respond 401 ''Invalid or expired token'', st))))"

definition optionalAuthenticate ::
  "jwt_verify \<Rightarrow> config \<Rightarrow> 'db auth_service \<Rightarrow> int \<Rightarrow> int \<Rightarrow> 'db auth_state \<Rightarrow> string option
     \<Rightarrow> principal option outcome \<times> 'db auth_state" where
  "optionalAuthenticate jv cfg svc t_get t_set st authHeader =
     (case authHeader of
        None \<Rightarrow> (Next None, st)
      | Some h \<Rightarrow>
          if h = [] \<or> \<not> starts_with h ''Bearer ''
          then (Next None, st)
          else
            let token = drop 7 h in
            (case verifyCustomToken jv cfg token of
               Some customPayload \<Rightarrow> (Next (Some (principal_of_claims customPayload)), st)
             | None \<Rightarrow>
                 (case verifySupabaseToken jv cfg token of
                    Some supabasePayload \<Rightarrow>
                      (case resolveSupabaseUser svc t_get t_set st
                              (js_prop supabasePayload ''sub'') (js_prop supabasePayload ''email'') of
                         (Some u, st') \<Rightarrow> (Next (Some (principal_of_user u)), st')
                       | (None, st') \<Rightarrow> (Next None, st'))
                  | None \<Rightarrow> (Next None, st))))"

section \<open>The tenant guard\<close>

text \<open>
  The part of the Express request the guard reads: \<^verbatim>\<open>req.user\<close> as the authentication
  middleware left it, the path parameters (always an object), the parsed body and the
  query (\<open>JUndefined\<close> when there is none).
\<close>

record express_req =
  req_user :: "principal option"
  params :: "(string \<times> jsval) list"
  body :: jsval
  query :: jsval









section \<open>Password reset (auth.routes)\<close>

text \<open>
  The handler of \<^verbatim>\<open>POST /auth/reset-password\<close>, from the point where the token and
  the new password have been read from the body as strings (an empty string stands for
  a missing field).
\<close>

definition reset_password ::
  "jwt_verify \<Rightarrow> config \<Rightarrow> 'db auth_service \<Rightarrow> 'db auth_state \<Rightarrow> string \<Rightarrow> string
     \<Rightarrow> (nat \<times> string) \<times> 'db auth_state" where
  "reset_password jv cfg svc st token newPassword =
     (if token = [] \<or> newPassword = []
      then ((400, ''Token and new password are required''), st)
      else if length newPassword < 6
      then ((400, ''Password must be at least 6 characters''), st)
      else
        (case jv token (jwt_secret cfg) of
           None \<Rightarrow> ((400, ''Invalid or expired reset token''), st)
         | Some decoded \<Rightarrow>
             (case get_prop decoded ''type'' of
                None \<Rightarrow> ((400, ''Invalid or expired reset token''), st)
              | Some ty \<Rightarrow>
                  if ty \<noteq> JStr ''password_reset'' \<or> \<not> truthy (js_prop decoded ''email'')
                  then ((400, ''Invalid or expired reset token''), st)
                  else
                    let email = js_prop decoded ''email'' in
                    (case call_getUserByEmail svc st email of
                       (None, st1) \<Rightarrow> ((400, ''Invalid or expired reset token''), st1)
                     | (Some u, st1) \<Rightarrow>
                         let st2 = call_updatePasswordByEmail svc st1 email (JStr newPassword);
                             st3 = st2\<lparr>userCache := clearUserCache (userCache st2) (id_u u)\<rparr>
                         in ((200, ''Password reset successful''), st3)))))"

section \<open>The ServiceTrade session manager (services/servicetrade)\<close>

text \<open>
  An outbound HTTP request. The session header \<^verbatim>\<open>Cookie: PHPSESSID=<token>\<close> is kept
  as the token it carries. \<open>site\<close> records which function issued the request; the program
  does not send it.
\<close>

datatype header_value = Plain string | SessionCookie jsval

datatype wire_body = NoBody | Raw string | Json jsval

datatype call_site = LoginCall | SessionCall | ProxiedCall

record http_request =
  site :: call_site
  http_method :: string
  url :: string
  headers :: "(string, header_value) js_map"
  payload :: wire_body

text \<open>
  \<^verbatim>\<open>fetch\<close> either rejects (network failure) or resolves to a response: its status and
  its body parsed as JSON, \<open>None\<close> when the body is not JSON. The third party is a
  parameter: \<open>remote\<close> answers the last request of a history of requests, so its answer
  may depend on everything sent before.
\<close>

datatype fetch_outcome = NetworkFailure | Response nat "jsval option"

type_synonym remote = "http_request list \<Rightarrow> fetch_outcome"

record world =
  tokenCache :: "string \<rightharpoonup> jsval"
  calls :: "http_request list"

datatype error = NetworkError | TypeError

definition fetch :: "remote \<Rightarrow> world \<Rightarrow> http_request \<Rightarrow> fetch_outcome \<times> world" where
  "fetch remote w rq = (let h = calls w @ [rq] in (remote h, w\<lparr>calls := h\<rparr>))"

text \<open>\<^verbatim>\<open>await res.json().catch(() => ({}))\<close>\<close>

definition parsed_body :: "jsval option \<Rightarrow> jsval" where
  "parsed_body jb = (case jb of None \<Rightarrow> JObj [] | Some j \<Rightarrow> j)"

record login_result =
  login_authToken :: jsval
  login_user :: jsval

record session =
  authenticated :: bool
  authToken :: jsval
  session_user :: jsval

record credentials =
  username :: string
  password :: string

text \<open>
  \<^verbatim>\<open>login\<close>. \<open>base\<close> is \<^verbatim>\<open>config.servicetrade.baseUrl\<close>; \<open>cid\<close> is the
  cache key \<^verbatim>\<open>String(companyId)\<close>. \<^verbatim>\<open>body.data\<close> throws when the body is the
  JSON value \<^verbatim>\<open>null\<close>.
\<close>

definition login_request :: "string \<Rightarrow> string \<Rightarrow> string \<Rightarrow> http_request" where
  "login_request base un pw =
     \<lparr>site = LoginCall, http_method = ''POST'', url = base @ ''/auth'',
      headers = [(''Content-Type'', Plain ''application/json'')],
      payload = Json (JObj [(''username'', JStr un), (''password'', JStr pw)])\<rparr>"

definition login ::
  "string \<Rightarrow> remote \<Rightarrow> world \<Rightarrow> string \<Rightarrow> string \<Rightarrow> string
     \<Rightarrow> (error + login_result option) \<times> world" where
  "login base remote w cid un pw =
     (if un = [] \<or> pw = [] then (Inr None, w)
      else
        (case fetch remote w (login_request base un pw) of
           (NetworkFailure, w1) \<Rightarrow> (Inl NetworkError, w1)
         | (Response st jb, w1) \<Rightarrow>
             let body = parsed_body jb in
             if nullish body then (Inl TypeError, w1)
             else
               let data = js_or (js_prop body ''data'') body in
               if st = 200 \<and> truthy (js_prop data ''authenticated'')
                  \<and> truthy (js_prop data ''authToken'')
               then (Inr (Some \<lparr>login_authToken = js_prop data ''authToken'',
                                 login_user = js_prop data ''user''\<rparr>),
                     w1\<lparr>tokenCache := (tokenCache w1)(cid \<mapsto> js_prop data ''authToken'')\<rparr>)
               else (Inr None, w1)))"

definition session_request :: "string \<Rightarrow> jsval \<Rightarrow> http_request" where
  "session_request base tok =
     \<lparr>site = SessionCall, http_method = ''GET'', url = base @ ''/auth'',
      headers = [(''Content-Type'', Plain ''application/json''), (''Cookie'', SessionCookie tok)],
      payload = NoBody\<rparr>"

text \<open>\<^verbatim>\<open>getSession\<close>; \<open>token\<close> is \<open>JUndefined\<close> when the argument is omitted.\<close>

definition getSession ::
  "string \<Rightarrow> remote \<Rightarrow> world \<Rightarrow> string \<Rightarrow> jsval \<Rightarrow> (error + session option) \<times> world" where
  "getSession base remote w cid token =
     (let cached = tokenCache w cid;
          tok = js_or token (case cached of None \<Rightarrow> JUndefined | Some t \<Rightarrow> t)
      in
        if \<not> truthy tok then (Inr None, w)
        else
          (case fetch remote w (session_request base tok) of
             (NetworkFailure, w1) \<Rightarrow> (Inl NetworkError, w1)
           | (Response st jb, w1) \<Rightarrow>
               let body = parsed_body jb in
               if nullish body then (Inl TypeError, w1)
               else
                 let data = js_or (js_prop body ''data'') body in
                 if st = 200 \<and> truthy (js_prop data ''authenticated'')
                 then (Inr (Some \<lparr>authenticated = True,
                                   authToken = js_prop data ''authToken'',
                                   session_user = js_prop data ''user''\<rparr>), w1)
                 else if st = 404
                 then (Inr None, w1\<lparr>tokenCache := (tokenCache w1)(cid := None)\<rparr>)
                 else (Inr None, w1)))"

text \<open>\<^verbatim>\<open>ensureSession\<close>: the token, \<open>JNull\<close> for \<^verbatim>\<open>null\<close>.\<close>

definition ensureSession ::
  "string \<Rightarrow> remote \<Rightarrow> world \<Rightarrow> string \<Rightarrow> credentials option \<Rightarrow> (error + jsval) \<times> world" where
  "ensureSession base remote w cid creds =
     (case getSession base remote w cid JUndefined of
        (Inl e, w1) \<Rightarrow> (Inl e, w1)
      | (Inr (Some s), w1) \<Rightarrow> (Inr (authToken s), w1)
      | (Inr None, w1) \<Rightarrow>
          (case creds of
             None \<Rightarrow> (Inr JNull, w1)
           | Some c \<Rightarrow>
               if username c = [] \<or> password c = [] then (Inr JNull, w1)
               else
                 (case login base remote w1 cid (username c) (password c) of
                    (Inl e, w2) \<Rightarrow> (Inl e, w2)
                  | (Inr (Some r), w2) \<Rightarrow> (Inr (login_authToken r), w2)
                  | (Inr None, w2) \<Rightarrow> (Inr JNull, w2))))"

record options =
  opt_body :: jsval
  opt_headers :: "(string \<times> header_value) list"

record api_result =
  ok :: bool
  status :: nat
  data :: jsval
  messages :: jsval

definition request_url :: "string \<Rightarrow> string \<Rightarrow> string" where
  "request_url base path =
     (if starts_with path ''http'' then path
      else base @ (if starts_with path ''/'' then path else ''/'' @ path))"

definition request_headers :: "jsval \<Rightarrow> options \<Rightarrow> (string, header_value) js_map" where
  "request_headers token opts =
     fold (\<lambda>(k, v) h. Map_set h k v) (opt_headers opts)
       [(''Content-Type'', Plain ''application/json''), (''Cookie'', SessionCookie token)]"

definition request_payload :: "options \<Rightarrow> wire_body" where
  "request_payload opts =
     (if nullish (opt_body opts) then NoBody
      else (case opt_body opts of JStr s \<Rightarrow> Raw s | b \<Rightarrow> Json b))"

definition proxied_request ::
  "string \<Rightarrow> string \<Rightarrow> string \<Rightarrow> options \<Rightarrow> jsval \<Rightarrow> http_request" where
  "proxied_request base meth path opts token =
     \<lparr>site = ProxiedCall, http_method = meth, url = request_url base path,
      headers = request_headers token opts, payload = request_payload opts\<rparr>"

text \<open>The value \<^verbatim>\<open>request\<close> returns for the response it ends with.\<close>

definition result_of :: "nat \<Rightarrow> jsval option \<Rightarrow> error + api_result" where
  "result_of st jb =
     (let body = parsed_body jb in
      if nullish body then Inl TypeError
      else Inr \<lparr>ok = (200 \<le> st \<and> st \<le> 299), status = st,
                data = (if js_prop body ''data'' \<noteq> JUndefined then js_prop body ''data'' else body),
                messages = js_or (js_prop body ''messages'') (JObj [])\<rparr>)"

definition not_authenticated :: api_result where
  "not_authenticated =
     \<lparr>ok = False, status = 401, data = JNull,
      messages = JObj [(''error'', JArr [JStr ''ServiceTrade not authenticated''])]\<rparr>"

definition request ::
  "string \<Rightarrow> remote \<Rightarrow> world \<Rightarrow> string \<Rightarrow> string \<Rightarrow> string \<Rightarrow> options \<Rightarrow> credentials option
     \<Rightarrow> (error + api_result) \<times> world" where
  "request base remote w cid meth path opts creds =
     (case ensureSession base remote w cid creds of
        (Inl e, w1) \<Rightarrow> (Inl e, w1)
      | (Inr token, w1) \<Rightarrow>
          if \<not> truthy token then (Inr not_authenticated, w1)
          else
            let rq = proxied_request base meth path opts token in
            (case fetch remote w1 rq of
               (NetworkFailure, w2) \<Rightarrow> (Inl NetworkError, w2)
             | (Response st jb, w2) \<Rightarrow>
                 if (st = 401 \<or> st = 404) \<and> creds \<noteq> None
                 then
                   let w3 = w2\<lparr>tokenCache := (tokenCache w2)(cid := None)\<rparr> in
                   (case ensureSession base remote w3 cid creds of
                      (Inl e, w4) \<Rightarrow> (Inl e, w4)
                    | (Inr token2, w4) \<Rightarrow>
                        if truthy token2
                        then
                          (case fetch remote w4
                                  (rq\<lparr>headers := Map_set (headers rq) ''Cookie'' (SessionCookie token2)\<rparr>) of
                             (NetworkFailure, w5) \<Rightarrow> (Inl NetworkError, w5)
                           | (Response st2 jb2, w5) \<Rightarrow> (result_of st2 jb2, w5))
                        else (result_of st jb, w4))
                 else (result_of st jb, w2)))"

section \<open>Runs of cache operations and sample data\<close>




definition sample_user :: user where
  "sample_user =
     \<lparr>id_u = JNum 1, email_u = JStr ''a@b.c'', company_id = JNum 1, role_u = JStr ''admin'',
      supabase_id = JNull, password_hash = JNull\<rparr>"


text \<open>
  Modelled from the spec: the user store behind \<^verbatim>\<open>auth.service\<close>
  (\<^verbatim>\<open>findByExternalId\<close>, \<^verbatim>\<open>findByEmail\<close>, \<^verbatim>\<open>linkExternalId\<close> and the password
  update), whose source is not at hand. The store is the list of its rows; a query
  returns the first row that matches, a write changes the rows that match. It serves as
  the concrete store of the examples below; the general statements hold for every store.
\<close>

definition list_store :: "user list auth_service" where
  "list_store =
     \<lparr>getUserBySupabaseId = (\<lambda>rows sid. find (\<lambda>u. supabase_id u = sid) rows),
      getUserByEmail = (\<lambda>rows e. find (\<lambda>u. email_u u = e) rows),
      updateSupabaseId = (\<lambda>rows uid sid. map (\<lambda>u. if id_u u = uid then u\<lparr>supabase_id := sid\<rparr> else u) rows),
      updatePasswordByEmail =
        (\<lambda>rows e pw. map (\<lambda>u. if email_u u = e then u\<lparr>password_hash := JArr [JStr ''bcrypt'', pw]\<rparr> else u) rows)\<rparr>"

definition sample_config :: config where
  "sample_config = \<lparr>jwt_secret = ''local-secret'', supabase_jwtSecret = Some ''supabase-secret''\<rparr>"

definition sample_claims :: jsval where
  "sample_claims =
     JObj [(''type'', JStr ''access''), (''userId'', JNum 1), (''email'', JStr ''a@b.c''),
           (''companyId'', JNum 1), (''role'', JStr ''admin'')]"

definition sample_jwt :: jwt_verify where
  "sample_jwt tok secret =
     (if secret = ''local-secret'' \<and> tok = ''local-token'' then Some sample_claims
      else if secret = ''supabase-secret'' \<and> tok = ''supabase-token''
        then Some (JObj [(''sub'', JStr ''sb-1''), (''email'', JStr ''a@b.c'')])
      else if secret = ''supabase-secret'' \<and> tok = ''stranger-token''
        then Some (JObj [(''sub'', JStr ''sb-9'')])
      else if secret = ''local-secret'' \<and> tok = ''reset-token''
        then Some (JObj [(''type'', JStr ''password_reset''), (''email'', JStr ''a@b.c'')])
      else None)"

text \<open>
  A token the service's own secret verifies, of type \<^verbatim>\<open>access\<close>, whose user identifier
  is the number 0.
\<close>

definition zero_id_claims :: jsval where
  "zero_id_claims =
     JObj [(''type'', JStr ''access''), (''userId'', JNum 0), (''email'', JStr ''z@b.c''),
           (''companyId'', JStr ''c1''), (''role'', JStr ''member'')]"

definition zero_id_jwt :: jwt_verify where
  "zero_id_jwt tok secret =
     (if secret = ''local-secret'' \<and> tok = ''zero-token'' then Some zero_id_claims else None)"

definition sample_state :: "user list auth_state" where
  "sample_state = \<lparr>userCache = [], db = [sample_user], store_calls = []\<rparr>"

definition linked_user :: user where
  "linked_user = sample_user\<lparr>supabase_id := JStr ''sb-1'', password_hash := JStr ''old-hash''\<rparr>"

definition newly_linked_user :: user where
  "newly_linked_user = sample_user\<lparr>supabase_id := JStr ''sb-1''\<rparr>"

definition linked_state :: "user list auth_state" where
  "linked_state =
     \<lparr>userCache = [(JStr ''sb-1'', \<lparr>user = linked_user, timestamp = 0\<rparr>)], db = [linked_user],
      store_calls = []\<rparr>"

definition boundary_state :: "user list auth_state" where
  "boundary_state =
     \<lparr>userCache = [(JStr ''sb-1'', \<lparr>user = linked_user, timestamp = 0\<rparr>)], db = [],
      store_calls = []\<rparr>"






text \<open>The requests of a history that were sent by \<^verbatim>\<open>request\<close> itself.\<close>

definition proxied_calls :: "http_request list \<Rightarrow> http_request list" where
  "proxied_calls rs = filter (\<lambda>r. site r = ProxiedCall) rs"

definition sample_base :: string where
  "sample_base = ''https://api.servicetrade.com/api''"

text \<open>
  A third party whose session \<open>old\<close> still passes the session check but is refused (401)
  on proxied calls; a login succeeds with the token \<open>fresh\<close> or is refused (403).
\<close>

definition stale_remote :: "bool \<Rightarrow> remote" where
  "stale_remote login_ok h =
     (case site (last h) of
        SessionCall \<Rightarrow>
          Response 200 (Some (JObj [(''data'', JObj [(''authenticated'', JBool True),
                                                      (''authToken'', JStr ''old'')])]))
      | LoginCall \<Rightarrow>
          if login_ok
          then Response 200 (Some (JObj [(''data'', JObj [(''authenticated'', JBool True),
                                                           (''authToken'', JStr ''fresh'')])]))
          else Response 403 None
      | ProxiedCall \<Rightarrow>
          if Map_get (headers (last h)) ''Cookie'' = Some (SessionCookie (JStr ''fresh''))
          then Response 200 (Some (JObj [(''data'', JStr ''ok'')]))
          else Response 401 None)"

definition remote_401 :: remote where
  "remote_401 h = Response 401 (Some (JObj [(''authenticated'', JBool False)]))"

definition sample_world :: world where
  "sample_world = \<lparr>tokenCache = [''c1'' \<mapsto> JStr ''old''], calls = []\<rparr>"

definition sample_creds :: credentials where
  "sample_creds = \<lparr>username = ''ann'', password = ''pw''\<rparr>"

definition sample_opts :: options where
  "sample_opts = \<lparr>opt_body = JUndefined, opt_headers = []\<rparr>"

text \<open>
  A third party with the valid session \<open>old\<close> that gives fixed answers to every proxied
  call and to every login.
\<close>

definition scripted_remote :: "fetch_outcome \<Rightarrow> fetch_outcome \<Rightarrow> remote" where
  "scripted_remote proxied_answer login_answer h =
     (case site (last h) of
        SessionCall \<Rightarrow>
          Response 200 (Some (JObj [(''data'', JObj [(''authenticated'', JBool True),
                                                      (''authToken'', JStr ''old'')])]))
      | LoginCall \<Rightarrow> login_answer
      | ProxiedCall \<Rightarrow> proxied_answer)"

definition login_accepted :: fetch_outcome where
  "login_accepted =
     Response 200 (Some (JObj [(''data'', JObj [(''authenticated'', JBool True),
                                                 (''authToken'', JStr ''fresh'')])]))"

definition no_password_creds :: credentials where
  "no_password_creds = \<lparr>username = ''ann'', password = ''''\<rparr>"

section \<open>Properties of the map operations\<close>



lemma Map_get_set: "Map_get (Map_set m k v) k' = (if k' = k then Some v else Map_get m k')"
  by (induction m) (auto simp: Map_get_def)


section \<open>The identity cache stays within its capacity\<close>









section \<open>Token verification and the authentication middleware\<close>

text \<open>
  The signature of \<open>zero-token\<close> verifies against the service's own secret, its type is
  \<^verbatim>\<open>access\<close> and both identifiers are present in the payload, the user identifier
  being the number 0; \<open>verifyCustomToken\<close> returns nothing.
\<close>

theorem verifyCustomToken_zero_id_counterexample:
  "zero_id_jwt ''zero-token'' (jwt_secret sample_config) = Some zero_id_claims
   \<and> js_prop zero_id_claims ''type'' = JStr ''access''
   \<and> js_prop zero_id_claims ''userId'' = JNum 0
   \<and> js_prop zero_id_claims ''companyId'' = JStr ''c1''
   \<and> verifyCustomToken zero_id_jwt sample_config ''zero-token'' = None"
  by (simp add: zero_id_jwt_def zero_id_claims_def sample_config_def verifyCustomToken_def
      get_prop_def nullish_def)

text \<open>
  Claim C8, amended. For every token, \<open>verifyCustomToken\<close> returns the decoded claims \<open>d\<close>
  exactly when the library verifies the token against the service's own secret and
  decodes it to \<open>d\<close>, the \<^verbatim>\<open>type\<close> of \<open>d\<close> is \<^verbatim>\<open>"access"\<close>, and \<^verbatim>\<open>userId\<close> and
  \<^verbatim>\<open>companyId\<close> are present in \<open>d\<close> with truthy values (not \<^verbatim>\<open>0\<close>, \<^verbatim>\<open>""\<close>,
  \<^verbatim>\<open>false\<close> or \<^verbatim>\<open>null\<close>). In every other case, a throw of the library included, the
  result is \<open>None\<close>: the function has no other outcome, it never throws.
\<close>

theorem verifyCustomToken_iff:
  "(verifyCustomToken jv cfg token = Some d \<longleftrightarrow>
      jv token (jwt_secret cfg) = Some d \<and> js_prop d ''type'' = JStr ''access''
      \<and> truthy (js_prop d ''userId'') \<and> truthy (js_prop d ''companyId''))
   \<and> (verifyCustomToken jv cfg token = None \<longleftrightarrow>
      (case jv token (jwt_secret cfg) of
         None \<Rightarrow> True
       | Some p \<Rightarrow> js_prop p ''type'' \<noteq> JStr ''access''
            \<or> \<not> truthy (js_prop p ''userId'') \<or> \<not> truthy (js_prop p ''companyId'')))"
proof -
  have n: "\<And>p. nullish p \<Longrightarrow> js_prop p ''type'' = JUndefined"
    by (auto simp: nullish_def)
  show ?thesis
    by (auto simp: verifyCustomToken_def get_prop_def n split: option.splits)
qed

theorem verifyCustomToken_iff_witness:
  "verifyCustomToken sample_jwt sample_config ''local-token'' = Some sample_claims
   \<and> verifyCustomToken sample_jwt sample_config ''supabase-token'' = None"
  using verifyCustomToken_iff[of sample_jwt sample_config "''local-token''" sample_claims]
    verifyCustomToken_iff[of sample_jwt sample_config "''supabase-token''"]
  by (simp add: sample_jwt_def sample_config_def sample_claims_def)

text \<open>
  Claim C1. The outcomes of \<open>authenticate\<close>. Without a \<^verbatim>\<open>Bearer\<close> header the
  request is rejected with 401. With a token that passes the local check the principal is built
  from the claims and the state is returned as it was (no store call, no cache change),
  whatever the external check would say. With a token that passes only the external
  check, the identity resolver is called with the \<^verbatim>\<open>sub\<close> and \<^verbatim>\<open>email\<close> claims: a
  user gives the principal of that user's fields, no user gives 401. A token that fails
  both checks gives 401.
\<close>

theorem authenticate_outcomes:
  "(authHeader = None \<or> (\<exists>h. authHeader = Some h \<and> \<not> starts_with h ''Bearer '')
      \<longrightarrow> authenticate jv cfg svc t_get t_set st authHeader
           = (Respond 401 ''No authorization token provided'', st))
   \<and> (\<forall>claims. authHeader = Some (''Bearer '' @ token)
         \<and> verifyCustomToken jv cfg token = Some claims
      \<longrightarrow> authenticate jv cfg svc t_get t_set st authHeader
           = (Next (Some \<lparr>userId = js_prop claims ''userId'', email = js_prop claims ''email'',
                           companyId = js_prop claims ''companyId'',
                           role = js_prop claims ''role''\<rparr>), st))
   \<and> (\<forall>p u st'. authHeader = Some (''Bearer '' @ token)
         \<and> verifyCustomToken jv cfg token = None
         \<and> verifySupabaseToken jv cfg token = Some p
         \<and> resolveSupabaseUser svc t_get t_set st (js_prop p ''sub'') (js_prop p ''email'')
             = (Some u, st')
      \<longrightarrow> authenticate jv cfg svc t_get t_set st authHeader
           = (Next (Some \<lparr>userId = id_u u, email = email_u u, companyId = company_id u,
                           role = role_u u\<rparr>), st'))
   \<and> (\<forall>p st'. authHeader = Some (''Bearer '' @ token)
         \<and> verifyCustomToken jv cfg token = None
         \<and> verifySupabaseToken jv cfg token = Some p
         \<and> resolveSupabaseUser svc t_get t_set st (js_prop p ''sub'') (js_prop p ''email'')
             = (None, st')
      \<longrightarrow> authenticate jv cfg svc t_get t_set st authHeader
           = (Respond 401 ''Invalid or expired token'', st'))
   \<and> (authHeader = Some (''Bearer '' @ token)
         \<and> verifyCustomToken jv cfg token = None
         \<and> verifySupabaseToken jv cfg token = None
      \<longrightarrow> authenticate jv cfg svc t_get t_set st authHeader
           = (Respond 401 ''Invalid or expired token'', st))"
  by (auto simp: authenticate_def starts_with_def principal_of_claims_def principal_of_user_def)

theorem authenticate_outcomes_witness:
  "authenticate sample_jwt sample_config list_store 10 20 sample_state None
     = (Respond 401 ''No authorization token provided'', sample_state)
   \<and> authenticate sample_jwt sample_config list_store 10 20 sample_state (Some ''Bearer local-token'')
     = (Next (Some \<lparr>userId = JNum 1, email = JStr ''a@b.c'', companyId = JNum 1,
                     role = JStr ''admin''\<rparr>), sample_state)
   \<and> fst (authenticate sample_jwt sample_config list_store 10 20 sample_state
            (Some ''Bearer supabase-token''))
     = Next (Some \<lparr>userId = JNum 1, email = JStr ''a@b.c'', companyId = JNum 1,
                    role = JStr ''admin''\<rparr>)
   \<and> fst (authenticate sample_jwt sample_config list_store 10 20 sample_state
            (Some ''Bearer stranger-token''))
     = Respond 401 ''Invalid or expired token''
   \<and> authenticate sample_jwt sample_config list_store 10 20 sample_state (Some ''Bearer garbage'')
     = (Respond 401 ''Invalid or expired token'', sample_state)"
proof -
  have loc: "verifyCustomToken sample_jwt sample_config ''local-token'' = Some sample_claims"
    "verifyCustomToken sample_jwt sample_config ''supabase-token'' = None"
    "verifyCustomToken sample_jwt sample_config ''stranger-token'' = None"
    "verifyCustomToken sample_jwt sample_config ''garbage'' = None"
    by (simp_all add: verifyCustomToken_def sample_jwt_def sample_config_def sample_claims_def
        get_prop_def nullish_def)
  have ext: "verifySupabaseToken sample_jwt sample_config ''supabase-token''
               = Some (JObj [(''sub'', JStr ''sb-1''), (''email'', JStr ''a@b.c'')])"
    "verifySupabaseToken sample_jwt sample_config ''stranger-token''
               = Some (JObj [(''sub'', JStr ''sb-9'')])"
    "verifySupabaseToken sample_jwt sample_config ''garbage'' = None"
    by (simp_all add: verifySupabaseToken_def sample_jwt_def sample_config_def
        get_prop_def nullish_def)
  have res: "resolveSupabaseUser list_store 10 20 sample_state (JStr ''sb-1'') (JStr ''a@b.c'')
       = (Some (sample_user\<lparr>supabase_id := JStr ''sb-1''\<rparr>),
          snd (resolveSupabaseUser list_store 10 20 sample_state (JStr ''sb-1'') (JStr ''a@b.c'')))"
    "resolveSupabaseUser list_store 10 20 sample_state (JStr ''sb-9'') JUndefined
       = (None, snd (resolveSupabaseUser list_store 10 20 sample_state (JStr ''sb-9'') JUndefined))"
    by (simp_all add: resolveSupabaseUser_def getCachedUser_def Map_get_def sample_state_def
        list_store_def sample_user_def call_getUserBySupabaseId_def call_getUserByEmail_def
        call_updateSupabaseId_def)
  have a: "authenticate sample_jwt sample_config list_store 10 20 sample_state None
     = (Respond 401 ''No authorization token provided'', sample_state)"
    using authenticate_outcomes[where authHeader = None and jv = sample_jwt and cfg = sample_config
        and svc = list_store and t_get = 10 and t_set = 20 and st = sample_state]
    by simp
  have b: "authenticate sample_jwt sample_config list_store 10 20 sample_state (Some ''Bearer local-token'')
     = (Next (Some \<lparr>userId = JNum 1, email = JStr ''a@b.c'', companyId = JNum 1,
                     role = JStr ''admin''\<rparr>), sample_state)"
    using authenticate_outcomes[where authHeader = "Some ''Bearer local-token''" and token = "''local-token''"
        and jv = sample_jwt and cfg = sample_config
        and svc = list_store and t_get = 10 and t_set = 20 and st = sample_state] loc
    by (simp add: sample_claims_def)
  have c: "fst (authenticate sample_jwt sample_config list_store 10 20 sample_state
            (Some ''Bearer supabase-token''))
     = Next (Some \<lparr>userId = JNum 1, email = JStr ''a@b.c'', companyId = JNum 1,
                    role = JStr ''admin''\<rparr>)"
    using authenticate_outcomes[where authHeader = "Some ''Bearer supabase-token''" and token = "''supabase-token''"
        and jv = sample_jwt and cfg = sample_config
        and svc = list_store and t_get = 10 and t_set = 20 and st = sample_state] loc ext res(1)
    by (simp add: sample_user_def)
  have d: "fst (authenticate sample_jwt sample_config list_store 10 20 sample_state
            (Some ''Bearer stranger-token''))
     = Respond 401 ''Invalid or expired token''"
    using authenticate_outcomes[where authHeader = "Some ''Bearer stranger-token''" and token = "''stranger-token''"
        and jv = sample_jwt and cfg = sample_config
        and svc = list_store and t_get = 10 and t_set = 20 and st = sample_state] loc ext res(2)
    by simp
  have e: "authenticate sample_jwt sample_config list_store 10 20 sample_state (Some ''Bearer garbage'')
     = (Respond 401 ''Invalid or expired token'', sample_state)"
    using authenticate_outcomes[where authHeader = "Some ''Bearer garbage''" and token = "''garbage''"
        and jv = sample_jwt and cfg = sample_config
        and svc = list_store and t_get = 10 and t_set = 20 and st = sample_state] loc ext
    by simp
  from a b c d e show ?thesis by simp
qed

text \<open>
  Claim C9. \<open>optionalAuthenticate\<close> is \<open>authenticate\<close> with every rejection replaced
  by "proceed without a principal": where \<open>authenticate\<close> proceeds, both attach the same
  principal and leave the same state; where \<open>authenticate\<close> rejects, the status is 401,
  the cause is a missing header or a token that no check accepts (the resolver finding
  no user included), and \<open>optionalAuthenticate\<close> proceeds with the principal absent and
  the same state.
\<close>

theorem optionalAuthenticate_refines:
  "optionalAuthenticate jv cfg svc t_get t_set st authHeader =
     (case authenticate jv cfg svc t_get t_set st authHeader of
        (Next p, st') \<Rightarrow> (Next p, st')
      | (Respond code msg, st') \<Rightarrow> (Next None, st'))
   \<and> (\<forall>code msg st'. authenticate jv cfg svc t_get t_set st authHeader = (Respond code msg, st')
        \<longrightarrow> code = 401
          \<and> (authHeader = None
             \<or> (\<exists>h. authHeader = Some h \<and> \<not> starts_with h ''Bearer '')
             \<or> (\<exists>h. authHeader = Some h \<and> verifyCustomToken jv cfg (drop 7 h) = None
                   \<and> (verifySupabaseToken jv cfg (drop 7 h) = None
                      \<or> (\<exists>p. verifySupabaseToken jv cfg (drop 7 h) = Some p
                            \<and> fst (resolveSupabaseUser svc t_get t_set st
                                     (js_prop p ''sub'') (js_prop p ''email'')) = None)))))"
  by (auto simp: authenticate_def optionalAuthenticate_def starts_with_def Let_def
           split: option.splits prod.splits)

theorem optionalAuthenticate_refines_witness:
  "optionalAuthenticate sample_jwt sample_config list_store 10 20 sample_state None
     = (Next None, sample_state)
   \<and> optionalAuthenticate sample_jwt sample_config list_store 10 20 sample_state
       (Some ''Bearer local-token'')
     = authenticate sample_jwt sample_config list_store 10 20 sample_state
       (Some ''Bearer local-token'')
   \<and> fst (authenticate sample_jwt sample_config list_store 10 20 sample_state
       (Some ''Bearer local-token'')) = Next (Some (principal_of_claims sample_claims))"
proof -
  have a: "authenticate sample_jwt sample_config list_store 10 20 sample_state None
     = (Respond 401 ''No authorization token provided'', sample_state)"
    by (simp add: authenticate_def)
  have b: "authenticate sample_jwt sample_config list_store 10 20 sample_state
       (Some ''Bearer local-token'') = (Next (Some (principal_of_claims sample_claims)), sample_state)"
    by (simp add: authenticate_def starts_with_def verifyCustomToken_def sample_jwt_def
        sample_config_def sample_claims_def get_prop_def nullish_def)
  show ?thesis
    using optionalAuthenticate_refines[of sample_jwt sample_config list_store 10 20 sample_state None]
      optionalAuthenticate_refines[of sample_jwt sample_config list_store 10 20 sample_state "Some ''Bearer local-token''"]
    by (simp add: a b)
qed

section \<open>The tenant guard\<close>




section \<open>The identity resolver\<close>

text \<open>
  A cache entry whose age is exactly five minutes (300000 ms, so not under five minutes)
  is still served: the resolver returns the snapshot and makes no store call, although
  the store (empty here) would not have found the user.
\<close>

theorem resolve_ttl_boundary_counterexample:
  "Map_get (userCache boundary_state) (JStr ''sb-1'') = Some \<lparr>user = linked_user, timestamp = 0\<rparr>
   \<and> \<not> (300000 - timestamp \<lparr>user = linked_user, timestamp = 0\<rparr> < CACHE_TTL_MS)
   \<and> resolveSupabaseUser list_store 300000 300000 boundary_state (JStr ''sb-1'') JUndefined
       = (Some linked_user, boundary_state)
   \<and> store_calls boundary_state = []"
  by (simp add: boundary_state_def resolveSupabaseUser_def getCachedUser_def Map_get_def
      CACHE_TTL_MS_def)

text \<open>
  Claim C2, amended. For every call of \<open>resolveSupabaseUser\<close> with subject id \<open>sid\<close>:
  if the cache has an entry for \<open>sid\<close> whose age is at most five minutes, the cached
  snapshot is returned and the state is unchanged (no store call). Otherwise (no entry,
  or an entry older than five minutes, which is deleted) the store is queried by
  \<^verbatim>\<open>supabase_id\<close>; a row found there is cached and returned. If that misses and the
  email hint is supplied (truthy), the store is queried by email; the link write
  \<open>UpdateSupabaseId\<close> is made if and only if the row found has no \<^verbatim>\<open>supabase_id\<close>, and
  the row, with the link when it was just made, is cached and returned. If neither
  query finds a row, nothing is cached and \<open>None\<close> is returned.
\<close>

theorem resolveSupabaseUser_cases:
  "(\<forall>e. Map_get (userCache st) sid = Some e \<and> t_get - timestamp e \<le> CACHE_TTL_MS \<longrightarrow>
        resolveSupabaseUser svc t_get t_set st sid emailHint = (Some (user e), st))
   \<and> ((Map_get (userCache st) sid = None
        \<or> (\<exists>e. Map_get (userCache st) sid = Some e \<and> t_get - timestamp e > CACHE_TTL_MS)) \<longrightarrow>
       (let c1 = Map_delete (userCache st) sid;
            by_id = [GetUserBySupabaseId sid];
            by_email = [GetUserBySupabaseId sid, GetUserByEmail emailHint]
        in
         (\<forall>u. getUserBySupabaseId svc (db st) sid = Some u \<longrightarrow>
            resolveSupabaseUser svc t_get t_set st sid emailHint =
              (Some u, \<lparr>userCache = setCachedUser t_set c1 sid u, db = db st,
                        store_calls = store_calls st @ by_id\<rparr>))
       \<and> (getUserBySupabaseId svc (db st) sid = None \<and> \<not> truthy emailHint \<longrightarrow>
            resolveSupabaseUser svc t_get t_set st sid emailHint =
              (None, \<lparr>userCache = c1, db = db st, store_calls = store_calls st @ by_id\<rparr>))
       \<and> (getUserBySupabaseId svc (db st) sid = None \<and> truthy emailHint
            \<and> getUserByEmail svc (db st) emailHint = None \<longrightarrow>
            resolveSupabaseUser svc t_get t_set st sid emailHint =
              (None, \<lparr>userCache = c1, db = db st, store_calls = store_calls st @ by_email\<rparr>))
       \<and> (\<forall>u. getUserBySupabaseId svc (db st) sid = None \<and> truthy emailHint
            \<and> getUserByEmail svc (db st) emailHint = Some u \<and> truthy (supabase_id u) \<longrightarrow>
            resolveSupabaseUser svc t_get t_set st sid emailHint =
              (Some u, \<lparr>userCache = setCachedUser t_set c1 sid u, db = db st,
                        store_calls = store_calls st @ by_email\<rparr>))
       \<and> (\<forall>u. getUserBySupabaseId svc (db st) sid = None \<and> truthy emailHint
            \<and> getUserByEmail svc (db st) emailHint = Some u \<and> \<not> truthy (supabase_id u) \<longrightarrow>
            resolveSupabaseUser svc t_get t_set st sid emailHint =
              (Some (u\<lparr>supabase_id := sid\<rparr>),
               \<lparr>userCache = setCachedUser t_set c1 sid (u\<lparr>supabase_id := sid\<rparr>),
                db = updateSupabaseId svc (db st) (id_u u) sid,
                store_calls = store_calls st @ by_email @ [UpdateSupabaseId (id_u u) sid]\<rparr>))))"
proof -
  have del: "Map_get (userCache st) sid = None \<Longrightarrow> Map_delete (userCache st) sid = userCache st"
    by (simp add: Map_get_def Map_delete_def map_of_eq_None_iff filter_id_conv) force
  have hit: "\<forall>e. Map_get (userCache st) sid = Some e \<and> t_get - timestamp e \<le> CACHE_TTL_MS \<longrightarrow>
        resolveSupabaseUser svc t_get t_set st sid emailHint = (Some (user e), st)"
    by (simp add: resolveSupabaseUser_def getCachedUser_def)
  have miss: "Map_get (userCache st) sid = None
        \<or> (\<exists>e. Map_get (userCache st) sid = Some e \<and> t_get - timestamp e > CACHE_TTL_MS)
     \<Longrightarrow> getCachedUser t_get (userCache st) sid = (None, Map_delete (userCache st) sid)"
    using del by (auto simp: getCachedUser_def)
  show ?thesis
    apply (rule conjI[OF hit])
    apply (rule impI)
    apply (drule miss)
    apply (simp add: resolveSupabaseUser_def call_getUserBySupabaseId_def call_getUserByEmail_def
        call_updateSupabaseId_def Let_def)
    done
qed

theorem resolveSupabaseUser_cases_witness:
  "resolveSupabaseUser list_store 300000 300000 boundary_state (JStr ''sb-1'') JUndefined
     = (Some linked_user, boundary_state)
   \<and> resolveSupabaseUser list_store 10 20 sample_state (JStr ''sb-1'') (JStr ''a@b.c'')
     = (Some newly_linked_user,
        \<lparr>userCache = [(JStr ''sb-1'', \<lparr>user = newly_linked_user, timestamp = 20\<rparr>)],
         db = [newly_linked_user],
         store_calls = [GetUserBySupabaseId (JStr ''sb-1''), GetUserByEmail (JStr ''a@b.c''),
                        UpdateSupabaseId (JNum 1) (JStr ''sb-1'')]\<rparr>)
   \<and> resolveSupabaseUser list_store 10 20 sample_state (JStr ''sb-9'') JUndefined
     = (None, sample_state\<lparr>store_calls := [GetUserBySupabaseId (JStr ''sb-9'')]\<rparr>)"
proof -
  have e: "Map_get (userCache boundary_state) (JStr ''sb-1'')
             = Some \<lparr>user = linked_user, timestamp = 0\<rparr>"
    by (simp add: boundary_state_def Map_get_def)
  have a: "resolveSupabaseUser list_store 300000 300000 boundary_state (JStr ''sb-1'') JUndefined
     = (Some linked_user, boundary_state)"
    using resolveSupabaseUser_cases[of boundary_state "JStr ''sb-1''" 300000 list_store 300000 JUndefined] e
    by (simp add: CACHE_TTL_MS_def)
  have m: "Map_get (userCache sample_state) (JStr ''sb-1'') = None"
       "Map_get (userCache sample_state) (JStr ''sb-9'') = None"
    by (simp_all add: sample_state_def Map_get_def)
  have b: "resolveSupabaseUser list_store 10 20 sample_state (JStr ''sb-1'') (JStr ''a@b.c'')
     = (Some newly_linked_user,
        \<lparr>userCache = [(JStr ''sb-1'', \<lparr>user = newly_linked_user, timestamp = 20\<rparr>)],
         db = [newly_linked_user],
         store_calls = [GetUserBySupabaseId (JStr ''sb-1''), GetUserByEmail (JStr ''a@b.c''),
                        UpdateSupabaseId (JNum 1) (JStr ''sb-1'')]\<rparr>)"
    using resolveSupabaseUser_cases[of sample_state "JStr ''sb-1''" 10 list_store 20 "JStr ''a@b.c''"] m
    by (simp add: Let_def list_store_def sample_state_def sample_user_def newly_linked_user_def
        setCachedUser_def Map_delete_def Map_size_def CACHE_MAX_SIZE_def)
  have c: "resolveSupabaseUser list_store 10 20 sample_state (JStr ''sb-9'') JUndefined
     = (None, sample_state\<lparr>store_calls := [GetUserBySupabaseId (JStr ''sb-9'')]\<rparr>)"
    using resolveSupabaseUser_cases[of sample_state "JStr ''sb-9''" 10 list_store 20 JUndefined] m
    by (simp add: Let_def list_store_def sample_state_def sample_user_def Map_delete_def)
  from a b c show ?thesis by simp
qed

text \<open>
  Claim C10. When the cache has no live entry for \<open>sid\<close>, the store has no row with this
  \<^verbatim>\<open>supabase_id\<close>, and the email hint matches a row \<open>u\<close> that is already linked to a
  different subject id, then \<open>resolveSupabaseUser\<close> returns \<open>u\<close>, makes the two reads and
  no write (the store is unchanged, so \<open>u\<close> keeps its link to the other id), and caches
  \<open>u\<close> under \<open>sid\<close>: a later call for \<open>sid\<close> within the time to live returns \<open>u\<close> from
  the cache. The account is reachable from \<open>sid\<close> and from the id it is linked to.
\<close>

theorem resolve_links_second_subject:
  assumes miss: "Map_get (userCache st) sid = None
                 \<or> (\<exists>e. Map_get (userCache st) sid = Some e \<and> t_get - timestamp e > CACHE_TTL_MS)"
    and no_id: "getUserBySupabaseId svc (db st) sid = None"
    and hint: "truthy emailHint"
    and found: "getUserByEmail svc (db st) emailHint = Some u"
    and linked: "truthy (supabase_id u)" and other: "supabase_id u \<noteq> sid"
  shows "\<exists>st'. resolveSupabaseUser svc t_get t_set st sid emailHint = (Some u, st')
           \<and> db st' = db st
           \<and> store_calls st' = store_calls st @ [GetUserBySupabaseId sid, GetUserByEmail emailHint]
           \<and> Map_get (userCache st') sid = Some \<lparr>user = u, timestamp = t_set\<rparr>
           \<and> (\<forall>t t' hint'. t - t_set \<le> CACHE_TTL_MS \<longrightarrow>
                 resolveSupabaseUser svc t t' st' sid hint' = (Some u, st'))"
proof -
  have del: "Map_get (userCache st) sid = None \<Longrightarrow> Map_delete (userCache st) sid = userCache st"
    by (simp add: Map_get_def Map_delete_def map_of_eq_None_iff filter_id_conv) force
  have g: "getCachedUser t_get (userCache st) sid = (None, Map_delete (userCache st) sid)"
    using miss del by (auto simp: getCachedUser_def)
  define st' where "st' = \<lparr>userCache = setCachedUser t_set (Map_delete (userCache st) sid) sid u,
      db = db st, store_calls = store_calls st @ [GetUserBySupabaseId sid, GetUserByEmail emailHint]\<rparr>"
  have r: "resolveSupabaseUser svc t_get t_set st sid emailHint = (Some u, st')"
    using no_id hint found linked
    by (simp add: resolveSupabaseUser_def g call_getUserBySupabaseId_def call_getUserByEmail_def
        st'_def)
  have c: "Map_get (userCache st') sid = Some \<lparr>user = u, timestamp = t_set\<rparr>"
    by (simp add: st'_def setCachedUser_def Map_get_set Let_def)
  have again: "\<forall>t t' hint'. t - t_set \<le> CACHE_TTL_MS \<longrightarrow>
                 resolveSupabaseUser svc t t' st' sid hint' = (Some u, st')"
    using c by (simp add: resolveSupabaseUser_def getCachedUser_def)
  from r c again show ?thesis by (auto simp: st'_def)
qed

theorem resolve_links_second_subject_witness:
  "fst (resolveSupabaseUser list_store 10 20 linked_state (JStr ''sb-2'') (JStr ''a@b.c''))
     = Some linked_user
   \<and> supabase_id linked_user = JStr ''sb-1''
   \<and> db (snd (resolveSupabaseUser list_store 10 20 linked_state (JStr ''sb-2'') (JStr ''a@b.c'')))
     = [linked_user]
   \<and> fst (resolveSupabaseUser list_store 30 40
        (snd (resolveSupabaseUser list_store 10 20 linked_state (JStr ''sb-2'') (JStr ''a@b.c'')))
        (JStr ''sb-2'') JUndefined) = Some linked_user"
proof -
  have h: "Map_get (userCache linked_state) (JStr ''sb-2'') = None"
    "getUserBySupabaseId list_store (db linked_state) (JStr ''sb-2'') = None"
    "truthy (JStr ''a@b.c'')"
    "getUserByEmail list_store (db linked_state) (JStr ''a@b.c'') = Some linked_user"
    "truthy (supabase_id linked_user)" "supabase_id linked_user \<noteq> JStr ''sb-2''"
    by (simp_all add: linked_state_def Map_get_def list_store_def linked_user_def sample_user_def)
  have t: "(30::int) - 20 \<le> CACHE_TTL_MS" by (simp add: CACHE_TTL_MS_def)
  from resolve_links_second_subject[OF disjI1[OF h(1)] h(2) h(3) h(4) h(5) h(6), of 10 20] t
  show ?thesis by (auto simp: linked_state_def linked_user_def)
qed

text \<open>
  Claim C4. The account \<open>linked_user\<close> (id 1, linked to the subject \<open>sb-1\<close>) has a
  snapshot in the cache under \<open>sb-1\<close>. The password reset succeeds and the store holds
  the new hash, but \<open>clearUserCache\<close> is called with the id of the row, 1, which is not
  a key of the cache: the entry under \<open>sb-1\<close> stays, and the next resolution of \<open>sb-1\<close>
  returns the snapshot with the old hash.
\<close>

theorem reset_password_keeps_cached_snapshot:
  "fst (reset_password sample_jwt sample_config list_store linked_state ''reset-token'' ''new-password'')
     = (200, ''Password reset successful'')
   \<and> getUserByEmail list_store
        (db (snd (reset_password sample_jwt sample_config list_store linked_state
                   ''reset-token'' ''new-password''))) (JStr ''a@b.c'')
     = Some (linked_user\<lparr>password_hash := JArr [JStr ''bcrypt'', JStr ''new-password'']\<rparr>)
   \<and> userCache (snd (reset_password sample_jwt sample_config list_store linked_state
                   ''reset-token'' ''new-password''))
     = [(JStr ''sb-1'', \<lparr>user = linked_user, timestamp = 0\<rparr>)]
   \<and> fst (resolveSupabaseUser list_store 1000 1000
        (snd (reset_password sample_jwt sample_config list_store linked_state
                ''reset-token'' ''new-password''))
        (JStr ''sb-1'') (JStr ''a@b.c'')) = Some linked_user
   \<and> password_hash linked_user = JStr ''old-hash''"
  by (simp add: reset_password_def sample_jwt_def sample_config_def list_store_def
      linked_state_def linked_user_def sample_user_def get_prop_def nullish_def
      call_getUserByEmail_def call_updatePasswordByEmail_def clearUserCache_def Map_delete_def
      resolveSupabaseUser_def getCachedUser_def Map_get_def CACHE_TTL_MS_def Let_def)

text \<open>The hash served after the reset is the one from before it.\<close>

theorem reset_password_keeps_cached_snapshot_witness:
  "map_option password_hash
     (fst (resolveSupabaseUser list_store 1000 1000
        (snd (reset_password sample_jwt sample_config list_store linked_state
                ''reset-token'' ''new-password''))
        (JStr ''sb-1'') (JStr ''a@b.c''))) = Some (JStr ''old-hash'')"
  using reset_password_keeps_cached_snapshot by simp

section \<open>The ServiceTrade session manager\<close>

lemma getSession_no_token:
  "tokenCache w cid = None \<Longrightarrow> getSession base remote w cid JUndefined = (Inr None, w)"
  by (simp add: getSession_def js_or_def)

lemma login_truthy:
  "login base remote w cid un pw = (Inr (Some r), w') \<Longrightarrow> truthy (login_authToken r)"
  by (auto simp: login_def fetch_def Let_def split: if_splits fetch_outcome.splits)

lemma login_calls:
  "un \<noteq> [] \<Longrightarrow> pw \<noteq> [] \<Longrightarrow>
   calls (snd (login base remote w cid un pw)) = calls w @ [login_request base un pw]"
  by (auto simp: login_def fetch_def Let_def split: if_splits fetch_outcome.splits)

lemma ensureSession_evicted:
  assumes "tokenCache w cid = None"
  shows "ensureSession base remote w cid creds =
     (case creds of
        None \<Rightarrow> (Inr JNull, w)
      | Some c \<Rightarrow>
          if username c = [] \<or> password c = [] then (Inr JNull, w)
          else (case login base remote w cid (username c) (password c) of
                  (Inl e, w2) \<Rightarrow> (Inl e, w2)
                | (Inr (Some r), w2) \<Rightarrow> (Inr (login_authToken r), w2)
                | (Inr None, w2) \<Rightarrow> (Inr JNull, w2)))"
  by (simp add: ensureSession_def getSession_no_token[OF assms])

lemma request_after_stale_response:
  assumes first: "ensureSession base remote w cid (Some c) = (Inr tok, w1)" and tok: "truthy tok"
    and resp: "remote (calls w1 @ [proxied_request base meth path opts tok]) = Response st1 jb1"
    and stale: "st1 = 401 \<or> st1 = 404"
  shows "(let rq1 = proxied_request base meth path opts tok;
              w2 = \<lparr>tokenCache = (tokenCache w1)(cid := None), calls = calls w1 @ [rq1]\<rparr>
          in
            (username c = [] \<or> password c = [] \<longrightarrow>
               request base remote w cid meth path opts (Some c) = (result_of st1 jb1, w2))
          \<and> (username c \<noteq> [] \<and> password c \<noteq> [] \<longrightarrow>
               calls (snd (login base remote w2 cid (username c) (password c)))
                 = calls w1 @ [rq1, login_request base (username c) (password c)]
             \<and> request base remote w cid meth path opts (Some c) =
                 (case login base remote w2 cid (username c) (password c) of
                    (Inl e, w3) \<Rightarrow> (Inl e, w3)
                  | (Inr None, w3) \<Rightarrow> (result_of st1 jb1, w3)
                  | (Inr (Some r), w3) \<Rightarrow>
                      let rq2 = rq1\<lparr>headers := Map_set (headers rq1) ''Cookie''
                                                  (SessionCookie (login_authToken r))\<rparr>;
                          w4 = w3\<lparr>calls := calls w3 @ [rq2]\<rparr>
                      in (case remote (calls w3 @ [rq2]) of
                            NetworkFailure \<Rightarrow> (Inl NetworkError, w4)
                          | Response st2 jb2 \<Rightarrow> (result_of st2 jb2, w4)))))"
proof -
  define rq1 where "rq1 = proxied_request base meth path opts tok"
  define w2 where "w2 = \<lparr>tokenCache = (tokenCache w1)(cid := None), calls = calls w1 @ [rq1]\<rparr>"
  have f: "fetch remote w1 rq1 = (Response st1 jb1, w1\<lparr>calls := calls w1 @ [rq1]\<rparr>)"
    using resp by (simp add: fetch_def rq1_def)
  have w2': "w1\<lparr>calls := calls w1 @ [rq1], tokenCache := (tokenCache w1)(cid := None)\<rparr> = w2"
    by (simp add: w2_def)
  have ev: "tokenCache w2 cid = None" by (simp add: w2_def)
  have r: "request base remote w cid meth path opts (Some c) =
         (case ensureSession base remote w2 cid (Some c) of
            (Inl e, w4) \<Rightarrow> (Inl e, w4)
          | (Inr token2, w4) \<Rightarrow>
              if truthy token2
              then (case fetch remote w4
                      (rq1\<lparr>headers := Map_set (headers rq1) ''Cookie'' (SessionCookie token2)\<rparr>) of
                      (NetworkFailure, w5) \<Rightarrow> (Inl NetworkError, w5)
                    | (Response st2 jb2, w5) \<Rightarrow> (result_of st2 jb2, w5))
              else (result_of st1 jb1, w4))"
    using stale tok by (simp add: request_def first rq1_def[symmetric] f w2' Let_def)
  have a: "username c = [] \<or> password c = [] \<Longrightarrow>
       request base remote w cid meth path opts (Some c) = (result_of st1 jb1, w2)"
    by (simp add: r ensureSession_evicted[OF ev])
  have b: "username c \<noteq> [] \<and> password c \<noteq> [] \<Longrightarrow>
       request base remote w cid meth path opts (Some c) =
                 (case login base remote w2 cid (username c) (password c) of
                    (Inl e, w3) \<Rightarrow> (Inl e, w3)
                  | (Inr None, w3) \<Rightarrow> (result_of st1 jb1, w3)
                  | (Inr (Some r), w3) \<Rightarrow>
                      let rq2 = rq1\<lparr>headers := Map_set (headers rq1) ''Cookie''
                                                  (SessionCookie (login_authToken r))\<rparr>;
                          w4 = w3\<lparr>calls := calls w3 @ [rq2]\<rparr>
                      in (case remote (calls w3 @ [rq2]) of
                            NetworkFailure \<Rightarrow> (Inl NetworkError, w4)
                          | Response st2 jb2 \<Rightarrow> (result_of st2 jb2, w4)))"
    by (auto simp: r ensureSession_evicted[OF ev] fetch_def Let_def
        split: prod.splits sum.splits option.splits fetch_outcome.splits dest: login_truthy)
  have l: "username c \<noteq> [] \<and> password c \<noteq> [] \<Longrightarrow>
       calls (snd (login base remote w2 cid (username c) (password c)))
                 = calls w1 @ [rq1, login_request base (username c) (password c)]"
    by (simp add: login_calls w2_def)
  show ?thesis
    using a b l
    unfolding Let_def rq1_def[symmetric] w2_def[symmetric]
    by blast
qed

lemma login_proxied:
  "proxied_calls (calls (snd (login base remote w cid un pw))) = proxied_calls (calls w)"
  by (auto simp: login_def fetch_def Let_def proxied_calls_def login_request_def
      split: if_splits fetch_outcome.splits)

lemma getSession_proxied:
  "proxied_calls (calls (snd (getSession base remote w cid token))) = proxied_calls (calls w)"
  by (auto simp: getSession_def fetch_def Let_def proxied_calls_def session_request_def
      split: if_splits fetch_outcome.splits)

lemma ensureSession_proxied:
  "proxied_calls (calls (snd (ensureSession base remote w cid creds))) = proxied_calls (calls w)"
proof -
  obtain r w1 where g: "getSession base remote w cid JUndefined = (r, w1)" by force
  have p1: "proxied_calls (calls w1) = proxied_calls (calls w)"
    using getSession_proxied[of base remote w cid JUndefined] by (simp add: g)
  show ?thesis
  proof (cases creds)
    case None
    then show ?thesis
      by (auto simp: ensureSession_def g p1 split: sum.splits option.splits)
  next
    case (Some c)
    obtain r2 w2 where l: "login base remote w1 cid (username c) (password c) = (r2, w2)" by force
    have p2: "proxied_calls (calls w2) = proxied_calls (calls w1)"
      using login_proxied[of base remote w1 cid "username c" "password c"] by (simp add: l)
    show ?thesis
      by (auto simp: ensureSession_def g l Some p1 p2 split: sum.splits option.splits)
  qed
qed

lemma request_proxied:
  "length (proxied_calls (calls (snd (request base remote w cid meth path opts creds))))
     \<le> length (proxied_calls (calls w)) + 2"
proof -
  obtain r1 w1 where e1: "ensureSession base remote w cid creds = (r1, w1)" by force
  have p1: "proxied_calls (calls w1) = proxied_calls (calls w)"
    using ensureSession_proxied[of base remote w cid creds] by (simp add: e1)
  show ?thesis
  proof (cases r1)
    case (Inl e)
    then show ?thesis by (simp add: request_def e1 p1)
  next
    case (Inr token)
    show ?thesis
    proof (cases "truthy token")
      case False
      then show ?thesis by (simp add: request_def e1 Inr p1)
    next
      case True
      define rq where "rq = proxied_request base meth path opts token"
      define w2 where "w2 = w1\<lparr>calls := calls w1 @ [rq]\<rparr>"
      have f: "fetch remote w1 rq = (remote (calls w1 @ [rq]), w2)"
        by (simp add: fetch_def w2_def Let_def)
      have p2: "length (proxied_calls (calls w2)) \<le> length (proxied_calls (calls w)) + 1"
        by (simp add: w2_def proxied_calls_def p1[unfolded proxied_calls_def])
      define w3 where "w3 = w2\<lparr>tokenCache := (tokenCache w2)(cid := None)\<rparr>"
      obtain r4 w4 where e4: "ensureSession base remote w3 cid creds = (r4, w4)" by force
      have p4: "proxied_calls (calls w4) = proxied_calls (calls w2)"
      proof -
        have "calls w3 = calls w2" by (simp add: w3_def)
        then show ?thesis
          using ensureSession_proxied[of base remote w3 cid creds] by (simp add: e4)
      qed
      have p5: "\<And>rq'. length (proxied_calls (calls (w4\<lparr>calls := calls w4 @ [rq']\<rparr>)))
                  \<le> length (proxied_calls (calls w)) + 2"
        using p2 p4 by (simp add: proxied_calls_def)
      have p4': "length (proxied_calls (calls w4)) \<le> length (proxied_calls (calls w)) + 2"
        using p2 p4 by simp
      have p2': "length (proxied_calls (calls w2)) \<le> length (proxied_calls (calls w)) + 2"
        using p2 by simp
      have f2: "\<And>rq'. fetch remote w4 rq'
                  = (remote (calls w4 @ [rq']), w4\<lparr>calls := calls w4 @ [rq']\<rparr>)"
        by (simp add: fetch_def Let_def)
      show ?thesis
        using p2' p4' p5
        by (simp add: request_def e1 Inr True rq_def[symmetric] f w3_def[symmetric] e4 f2 Let_def
            split: fetch_outcome.splits sum.splits)
    qed
  qed
qed

text \<open>
  The two sample executions, request by request: session check, first call, login and,
  after a successful login only, the second call.
\<close>

lemma request_sample_trace:
  "map site (calls (snd (request sample_base (stale_remote True) sample_world ''c1'' ''GET'' ''/job''
          sample_opts (Some sample_creds))))
     = [SessionCall, ProxiedCall, LoginCall, ProxiedCall]
   \<and> tokenCache (snd (request sample_base (stale_remote True) sample_world ''c1'' ''GET'' ''/job''
          sample_opts (Some sample_creds))) ''c1'' = Some (JStr ''fresh'')
   \<and> map site (calls (snd (request sample_base (stale_remote False) sample_world ''c1'' ''GET'' ''/job''
          sample_opts (Some sample_creds))))
     = [SessionCall, ProxiedCall, LoginCall]
   \<and> tokenCache (snd (request sample_base (stale_remote False) sample_world ''c1'' ''GET'' ''/job''
          sample_opts (Some sample_creds))) ''c1'' = None"
  by (simp add: request_def ensureSession_def getSession_def login_def fetch_def Let_def
      sample_world_def sample_creds_def sample_opts_def stale_remote_def js_or_def
      session_request_def login_request_def proxied_request_def request_headers_def
      parsed_body_def nullish_def Map_get_def result_of_def)

text \<open>
  Three executions with a valid cached session, credentials supplied and a first
  response of status 401. When the re-login fails on the network, \<open>request\<close> raises
  the network error instead of returning the first response. When the body of the
  first response is the JSON value \<^verbatim>\<open>null\<close> and the re-login is refused, \<open>request\<close>
  raises a TypeError instead of returning the first response. When the credentials
  have an empty password, the cache entry is evicted but no login request is sent.
\<close>

theorem request_relogin_counterexample:
  "fst (request sample_base (scripted_remote (Response 401 None) NetworkFailure) sample_world
          ''c1'' ''GET'' ''/job'' sample_opts (Some sample_creds)) = Inl NetworkError
   \<and> map site (calls (snd (request sample_base (scripted_remote (Response 401 None) NetworkFailure)
          sample_world ''c1'' ''GET'' ''/job'' sample_opts (Some sample_creds))))
       = [SessionCall, ProxiedCall, LoginCall]
   \<and> fst (request sample_base (scripted_remote (Response 401 (Some JNull)) (Response 403 None))
          sample_world ''c1'' ''GET'' ''/job'' sample_opts (Some sample_creds)) = Inl TypeError
   \<and> map site (calls (snd (request sample_base
          (scripted_remote (Response 401 (Some JNull)) (Response 403 None))
          sample_world ''c1'' ''GET'' ''/job'' sample_opts (Some sample_creds))))
       = [SessionCall, ProxiedCall, LoginCall]
   \<and> map site (calls (snd (request sample_base (scripted_remote (Response 401 None) login_accepted)
          sample_world ''c1'' ''GET'' ''/job'' sample_opts (Some no_password_creds))))
       = [SessionCall, ProxiedCall]
   \<and> tokenCache (snd (request sample_base (scripted_remote (Response 401 None) login_accepted)
          sample_world ''c1'' ''GET'' ''/job'' sample_opts (Some no_password_creds))) ''c1'' = None"
  by (simp add: request_def ensureSession_def getSession_def login_def fetch_def Let_def
      sample_world_def sample_creds_def no_password_creds_def sample_opts_def scripted_remote_def
      login_accepted_def js_or_def
      session_request_def login_request_def proxied_request_def request_headers_def
      parsed_body_def nullish_def Map_get_def result_of_def)

text \<open>
  Claim C3, amended. In every execution \<open>request\<close> sends the original call at most
  twice: at most one retry. When credentials are supplied, a session token \<open>tok\<close> was
  obtained and the first response has status 401 or 404, the cache entry of the tenant
  is evicted. With credentials that lack the username or the password no login request
  is sent and the result of the first response is returned. Otherwise exactly one
  login request is sent, with no session check before it, and: if it fails on the
  network, or its response body is the JSON value \<^verbatim>\<open>null\<close>, that error is raised to
  the caller; if the login succeeds (status 200, truthy \<^verbatim>\<open>authenticated\<close> and
  \<^verbatim>\<open>authToken\<close>), the new token is cached and the original call is sent once more,
  its cookie replaced by the new token, and the result is the one of the second
  response (the network error if that call fails); if the login is refused, the result
  of the first response is returned and the cache entry stays evicted. The result of the
  first response is its status, \<open>ok = False\<close>, its data and messages, unmodified, except
  that a first response whose body is the JSON value \<^verbatim>\<open>null\<close> raises a TypeError.
\<close>

theorem request_retries_once:
  "length (proxied_calls (calls (snd (request base remote w cid meth path opts creds))))
     \<le> length (proxied_calls (calls w)) + 2
   \<and> (\<forall>c tok w1 st1 jb1.
        creds = Some c \<and> ensureSession base remote w cid creds = (Inr tok, w1) \<and> truthy tok
        \<and> remote (calls w1 @ [proxied_request base meth path opts tok]) = Response st1 jb1
        \<and> (st1 = 401 \<or> st1 = 404) \<longrightarrow>
        (let rq1 = proxied_request base meth path opts tok;
             lg = login_request base (username c) (password c);
             evicted = (tokenCache w1)(cid := None);
             first_result =
               (if nullish (parsed_body jb1) then Inl TypeError
                else Inr \<lparr>ok = False, status = st1,
                          data = (if js_prop (parsed_body jb1) ''data'' \<noteq> JUndefined
                                  then js_prop (parsed_body jb1) ''data'' else parsed_body jb1),
                          messages = js_or (js_prop (parsed_body jb1) ''messages'') (JObj [])\<rparr>)
         in
            (username c = [] \<or> password c = [] \<longrightarrow>
               request base remote w cid meth path opts creds
                 = (first_result, \<lparr>tokenCache = evicted, calls = calls w1 @ [rq1]\<rparr>))
          \<and> (username c \<noteq> [] \<and> password c \<noteq> [] \<longrightarrow>
               (remote (calls w1 @ [rq1, lg]) = NetworkFailure \<longrightarrow>
                  request base remote w cid meth path opts creds
                    = (Inl NetworkError, \<lparr>tokenCache = evicted, calls = calls w1 @ [rq1, lg]\<rparr>))
             \<and> (\<forall>ls lb. remote (calls w1 @ [rq1, lg]) = Response ls lb
                    \<and> nullish (parsed_body lb) \<longrightarrow>
                  request base remote w cid meth path opts creds
                    = (Inl TypeError, \<lparr>tokenCache = evicted, calls = calls w1 @ [rq1, lg]\<rparr>))
             \<and> (\<forall>ls lb. remote (calls w1 @ [rq1, lg]) = Response ls lb
                    \<and> \<not> nullish (parsed_body lb) \<longrightarrow>
                  (let d = js_or (js_prop (parsed_body lb) ''data'') (parsed_body lb);
                       new = js_prop d ''authToken'';
                       rq2 = rq1\<lparr>headers := Map_set (headers rq1) ''Cookie'' (SessionCookie new)\<rparr>;
                       w4 = \<lparr>tokenCache = evicted(cid \<mapsto> new), calls = calls w1 @ [rq1, lg, rq2]\<rparr>
                   in
                     (ls = 200 \<and> truthy (js_prop d ''authenticated'') \<and> truthy new \<longrightarrow>
                        request base remote w cid meth path opts creds =
                          (case remote (calls w1 @ [rq1, lg, rq2]) of
                             NetworkFailure \<Rightarrow> (Inl NetworkError, w4)
                           | Response st2 jb2 \<Rightarrow> (result_of st2 jb2, w4)))
                   \<and> (\<not> (ls = 200 \<and> truthy (js_prop d ''authenticated'') \<and> truthy new) \<longrightarrow>
                        request base remote w cid meth path opts creds
                          = (first_result,
                             \<lparr>tokenCache = evicted, calls = calls w1 @ [rq1, lg]\<rparr>)))))))"
  apply (rule conjI)
   apply (rule request_proxied)
  apply (intro allI impI)
  apply (elim conjE)
  subgoal premises p for c tok w1 st1 jb1
    using request_after_stale_response[OF p(2)[unfolded p(1)] p(3) p(4) p(5), unfolded Let_def]
      p(5)
    unfolding Let_def p(1)
    by (auto simp: login_def fetch_def Let_def result_of_def split: fetch_outcome.splits)
  done

theorem request_retries_once_witness:
  "fst (request sample_base (stale_remote True) sample_world ''c1'' ''GET'' ''/job'' sample_opts
          (Some sample_creds))
     = Inr \<lparr>ok = True, status = 200, data = JStr ''ok'', messages = JObj []\<rparr>
   \<and> map site (calls (snd (request sample_base (stale_remote True) sample_world ''c1'' ''GET''
          ''/job'' sample_opts (Some sample_creds))))
     = [SessionCall, ProxiedCall, LoginCall, ProxiedCall]
   \<and> fst (request sample_base (stale_remote False) sample_world ''c1'' ''GET'' ''/job'' sample_opts
          (Some sample_creds))
     = Inr \<lparr>ok = False, status = 401, data = JObj [], messages = JObj []\<rparr>
   \<and> map site (calls (snd (request sample_base (stale_remote False) sample_world ''c1'' ''GET''
          ''/job'' sample_opts (Some sample_creds))))
     = [SessionCall, ProxiedCall, LoginCall]
   \<and> fst (request sample_base (scripted_remote (Response 401 None) NetworkFailure) sample_world
          ''c1'' ''GET'' ''/job'' sample_opts (Some sample_creds)) = Inl NetworkError
   \<and> request sample_base (scripted_remote (Response 401 None) login_accepted) sample_world
          ''c1'' ''GET'' ''/job'' sample_opts (Some no_password_creds)
     = (Inr \<lparr>ok = False, status = 401, data = JObj [], messages = JObj []\<rparr>,
        \<lparr>tokenCache = Map.empty,
         calls = [session_request sample_base (JStr ''old''),
                  proxied_request sample_base ''GET'' ''/job'' sample_opts (JStr ''old'')]\<rparr>)"
proof -
  define w1 where "w1 = sample_world\<lparr>calls := [session_request sample_base (JStr ''old'')]\<rparr>"
  have cw1: "calls w1 = [session_request sample_base (JStr ''old'')]"
    and tw1: "(tokenCache w1)(''c1'' := None) = Map.empty"
    by (simp_all add: w1_def sample_world_def)
  have e: "\<And>b. ensureSession sample_base (stale_remote b) sample_world ''c1'' (Some sample_creds)
             = (Inr (JStr ''old''), w1)"
    by (simp add: ensureSession_def getSession_def sample_world_def js_or_def fetch_def Let_def
        stale_remote_def session_request_def parsed_body_def nullish_def w1_def)
  have e': "\<And>pa la cr. ensureSession sample_base (scripted_remote pa la) sample_world ''c1'' (Some cr)
             = (Inr (JStr ''old''), w1)"
    by (simp add: ensureSession_def getSession_def sample_world_def js_or_def fetch_def Let_def
        scripted_remote_def session_request_def parsed_body_def nullish_def w1_def)
  have p: "\<And>b. stale_remote b (calls w1 @ [proxied_request sample_base ''GET'' ''/job'' sample_opts (JStr ''old'')])
             = Response 401 None"
    by (simp add: stale_remote_def proxied_request_def request_headers_def sample_opts_def
        Map_get_def)
  have p': "\<And>la. scripted_remote (Response 401 None) la
               (calls w1 @ [proxied_request sample_base ''GET'' ''/job'' sample_opts (JStr ''old'')])
             = Response 401 None"
    by (simp add: scripted_remote_def proxied_request_def)
  have c: "username sample_creds \<noteq> [] \<and> password sample_creds \<noteq> []"
    by (simp add: sample_creds_def)
  have a: "fst (request sample_base (stale_remote True) sample_world ''c1'' ''GET'' ''/job'' sample_opts
          (Some sample_creds))
     = Inr \<lparr>ok = True, status = 200, data = JStr ''ok'', messages = JObj []\<rparr>"
    using request_retries_once[of sample_base "stale_remote True" sample_world "''c1''" "''GET''" "''/job''"
        sample_opts "Some sample_creds"] e[of True] p[of True] c
    by (simp add: Let_def login_request_def stale_remote_def parsed_body_def
        nullish_def js_or_def proxied_request_def request_headers_def
        sample_opts_def Map_get_def result_of_def)
  have b: "fst (request sample_base (stale_remote False) sample_world ''c1'' ''GET'' ''/job'' sample_opts
          (Some sample_creds))
     = Inr \<lparr>ok = False, status = 401, data = JObj [], messages = JObj []\<rparr>"
    using request_retries_once[of sample_base "stale_remote False" sample_world "''c1''" "''GET''" "''/job''"
        sample_opts "Some sample_creds"] e[of False] p[of False] c
    by (simp add: Let_def login_request_def stale_remote_def parsed_body_def
        nullish_def js_or_def)
  have n: "fst (request sample_base (scripted_remote (Response 401 None) NetworkFailure) sample_world
          ''c1'' ''GET'' ''/job'' sample_opts (Some sample_creds)) = Inl NetworkError"
    using request_retries_once[of sample_base "scripted_remote (Response 401 None) NetworkFailure" sample_world
        "''c1''" "''GET''" "''/job''" sample_opts "Some sample_creds"]
      e'[of "Response 401 None" NetworkFailure sample_creds] p'[of NetworkFailure] c
    by (simp add: Let_def login_request_def scripted_remote_def)
  have q: "request sample_base (scripted_remote (Response 401 None) login_accepted) sample_world
          ''c1'' ''GET'' ''/job'' sample_opts (Some no_password_creds)
     = (Inr \<lparr>ok = False, status = 401, data = JObj [], messages = JObj []\<rparr>,
        \<lparr>tokenCache = Map.empty,
         calls = [session_request sample_base (JStr ''old''),
                  proxied_request sample_base ''GET'' ''/job'' sample_opts (JStr ''old'')]\<rparr>)"
    using request_retries_once[of sample_base "scripted_remote (Response 401 None) login_accepted" sample_world
        "''c1''" "''GET''" "''/job''" sample_opts "Some no_password_creds"]
      e'[of "Response 401 None" login_accepted no_password_creds] p'[of login_accepted]
    by (simp add: Let_def no_password_creds_def parsed_body_def nullish_def js_or_def cw1 tw1)
  from a b n q request_sample_trace show ?thesis by simp
qed

text \<open>
  With a cached token and a third party that answers 401, \<open>getSession\<close> returns nothing
  but the cache entry is still there.
\<close>

theorem getSession_401_counterexample:
  "tokenCache sample_world ''c1'' = Some (JStr ''old'')
   \<and> getSession sample_base remote_401 sample_world ''c1'' JUndefined
       = (Inr None, sample_world\<lparr>calls := [session_request sample_base (JStr ''old'')]\<rparr>)
   \<and> tokenCache (snd (getSession sample_base remote_401 sample_world ''c1'' JUndefined)) ''c1''
       = Some (JStr ''old'')"
  by (simp add: getSession_def sample_world_def js_or_def fetch_def Let_def remote_401_def
      parsed_body_def nullish_def)

text \<open>
  Claim C5, amended. \<open>getSession\<close> without a token argument. With no cached token (or a
  falsy one) it returns nothing and sends no request. With a cached token it sends the
  session check, and: if the request fails on the network, or the response body is the
  JSON value \<^verbatim>\<open>null\<close> (whatever the status, 404 included), an error is raised to the
  caller and the cache entry is kept; otherwise, on status 404 the cache entry is
  evicted and nothing is returned; on status 200 with a truthy \<^verbatim>\<open>authenticated\<close> the
  live session is returned; on every other response (401, or 200 without
  \<^verbatim>\<open>authenticated\<close>) nothing is returned and the cache entry is kept.
\<close>

theorem getSession_cases:
  "((tokenCache w cid = None \<or> (\<exists>t. tokenCache w cid = Some t \<and> \<not> truthy t)) \<longrightarrow>
       getSession base remote w cid JUndefined = (Inr None, w))
   \<and> (\<forall>t. tokenCache w cid = Some t \<and> truthy t \<longrightarrow>
        (let w1 = w\<lparr>calls := calls w @ [session_request base t]\<rparr>;
             answer = remote (calls w @ [session_request base t])
         in
            (answer = NetworkFailure \<longrightarrow>
               getSession base remote w cid JUndefined = (Inl NetworkError, w1)
               \<and> tokenCache w1 cid = Some t)
          \<and> (\<forall>st jb. answer = Response st jb \<and> nullish (parsed_body jb) \<longrightarrow>
               getSession base remote w cid JUndefined = (Inl TypeError, w1)
               \<and> tokenCache w1 cid = Some t)
          \<and> (\<forall>st jb. answer = Response st jb \<and> \<not> nullish (parsed_body jb) \<longrightarrow>
               (let data = js_or (js_prop (parsed_body jb) ''data'') (parsed_body jb)
                in
                  (st = 404 \<longrightarrow>
                     getSession base remote w cid JUndefined
                       = (Inr None, w1\<lparr>tokenCache := (tokenCache w)(cid := None)\<rparr>))
                \<and> (st = 200 \<and> truthy (js_prop data ''authenticated'') \<longrightarrow>
                     getSession base remote w cid JUndefined
                       = (Inr (Some \<lparr>authenticated = True, authToken = js_prop data ''authToken'',
                                     session_user = js_prop data ''user''\<rparr>), w1)
                     \<and> tokenCache w1 cid = Some t)
                \<and> (st \<noteq> 404 \<and> \<not> (st = 200 \<and> truthy (js_prop data ''authenticated'')) \<longrightarrow>
                     getSession base remote w cid JUndefined = (Inr None, w1)
                     \<and> tokenCache w1 cid = Some t)))))"
  by (auto simp: getSession_def js_or_def fetch_def Let_def)

theorem getSession_cases_witness:
  "getSession sample_base (stale_remote True) sample_world ''c1'' JUndefined
     = (Inr (Some \<lparr>authenticated = True, authToken = JStr ''old'', session_user = JUndefined\<rparr>),
        sample_world\<lparr>calls := [session_request sample_base (JStr ''old'')]\<rparr>)
   \<and> getSession sample_base (\<lambda>h. Response 404 None) sample_world ''c1'' JUndefined
     = (Inr None, \<lparr>tokenCache = Map.empty, calls = [session_request sample_base (JStr ''old'')]\<rparr>)
   \<and> getSession sample_base (\<lambda>h. Response 404 (Some JNull)) sample_world ''c1'' JUndefined
     = (Inl TypeError, sample_world\<lparr>calls := [session_request sample_base (JStr ''old'')]\<rparr>)
   \<and> getSession sample_base (\<lambda>h. NetworkFailure) sample_world ''c1'' JUndefined
     = (Inl NetworkError, sample_world\<lparr>calls := [session_request sample_base (JStr ''old'')]\<rparr>)
   \<and> getSession sample_base remote_401 sample_world ''c1'' JUndefined
     = (Inr None, sample_world\<lparr>calls := [session_request sample_base (JStr ''old'')]\<rparr>)
   \<and> getSession sample_base remote_401 (sample_world\<lparr>tokenCache := Map.empty\<rparr>) ''c1'' JUndefined
     = (Inr None, sample_world\<lparr>tokenCache := Map.empty\<rparr>)"
  using getSession_cases[of sample_world "''c1''" sample_base "stale_remote True"]
    getSession_cases[of sample_world "''c1''" sample_base "\<lambda>h. Response 404 None"]
    getSession_cases[of sample_world "''c1''" sample_base "\<lambda>h. Response 404 (Some JNull)"]
    getSession_cases[of sample_world "''c1''" sample_base "\<lambda>h. NetworkFailure"]
    getSession_cases[of sample_world "''c1''" sample_base remote_401]
    getSession_cases[of "sample_world\<lparr>tokenCache := Map.empty\<rparr>" "''c1''" sample_base remote_401]
  by (simp add: sample_world_def stale_remote_def remote_401_def session_request_def
      parsed_body_def nullish_def js_or_def Let_def)

end
